theory Spec2Isabelle
  imports Main "HOL-Library.Sublist"
begin

section \<open>Job alert script: a shallow embedding of \<^verbatim>\<open>job_alert.py\<close>\<close>

text \<open>
  The script queries a job-search API for every (query term, location) pair, keeps the
  records that pass a keyword filter, renders them as an HTML digest and mails it.

  Conventions of the model.
  \<^item> A Python \<^verbatim>\<open>str\<close> is a \<open>string\<close>; one \<open>char\<close> stands for one character of
    ASCII text, which is the range the model of \<^verbatim>\<open>str.lower\<close> covers. The four
    non-ASCII symbols of the script's own literals (a rocket, a cross mark, a check mark,
    an em dash) are written as their UTF-8 bytes.
  \<^item> A raw job record is a dict decoded from JSON. The script reads seven keys of it, all
    with \<^verbatim>\<open>dict.get\<close>; the model is a record of these keys, \<open>None\<close> for a missing key
    and text for a present one.
  \<^item> The network is a pair of oracles (one for the HTTP search, one for the SMTP session);
    every call is written to a trace of events, so that "no call was made" is a statement
    about the trace.
  \<^item> An exception is a value of type \<open>error\<close>; a function that may raise returns
    \<open>error + 'a\<close>.
  \<^item> In the source file the body of the loop \<^verbatim>\<open>for j in jobs:\<close> of
    \<^verbatim>\<open>build_email_html\<close> (lines 71 to 93) stands at the indentation of the
    \<^verbatim>\<open>for\<close> itself, which Python rejects when it compiles the module. The model
    reads these lines as the body of that loop (the \<^verbatim>\<open>continue\<close> among them has no
    other reading), one level deeper than they are written.
\<close>

subsection \<open>Text primitives of Python\<close>

definition nl :: string where
  "nl = [CHR 0x0A]"

text \<open>\<^verbatim>\<open>str.lower\<close> on ASCII text: the letters A to Z become a to z.\<close>

definition lower_char :: "char \<Rightarrow> char" where
  "lower_char c =
     (case map_of (zip ''ABCDEFGHIJKLMNOPQRSTUVWXYZ'' ''abcdefghijklmnopqrstuvwxyz'') c of
        None \<Rightarrow> c
      | Some d \<Rightarrow> d)"

definition lower :: "string \<Rightarrow> string" where
  "lower s = map lower_char s"

text \<open>\<^verbatim>\<open>k in text\<close> on strings: \<open>k\<close> occurs at some position of \<open>text\<close>.\<close>

fun py_in :: "string \<Rightarrow> string \<Rightarrow> bool" where
  "py_in k [] = (k = [])"
| "py_in k (c # cs) = (prefix k (c # cs) \<or> py_in k cs)"

text \<open>\<^verbatim>\<open>sep.join(parts)\<close>.\<close>

fun join :: "string \<Rightarrow> string list \<Rightarrow> string" where
  "join sep [] = []"
| "join sep [x] = x"
| "join sep (x # y # ys) = x @ sep @ join sep (y # ys)"

text \<open>\<^verbatim>\<open>s.startswith(p)\<close>.\<close>

definition startswith :: "string \<Rightarrow> string \<Rightarrow> bool" where
  "startswith s p = prefix p s"

text \<open>\<^verbatim>\<open>s.replace(old, new)\<close> for a pattern \<open>old\<close> of one character.\<close>

definition replace :: "char \<Rightarrow> string \<Rightarrow> string \<Rightarrow> string" where
  "replace old new s = concat (map (\<lambda>c. if c = old then new else [c]) s)"

text \<open>
  \<^verbatim>\<open>html.escape(s, quote=True)\<close> of the standard library: five replacements in the
  library's order, the ampersand first, the two quote characters only when \<open>quote\<close>
  is set.
\<close>

definition html_escape :: "string \<Rightarrow> bool \<Rightarrow> string" where
  \<open>html_escape s quote =
     (let s1 = replace (CHR ''&'') ''&amp;'' s;
          s2 = replace (CHR ''<'') ''&lt;'' s1;
          s3 = replace (CHR ''>'') ''&gt;'' s2
      in if quote
         then replace (CHR 0x27) ''&#x27;'' (replace (CHR 0x22) ''&quot;'' s3)
         else s3)\<close>

text \<open>\<^verbatim>\<open>str(n)\<close> for a length.\<close>

fun str_nat :: "nat \<Rightarrow> string" where
  "str_nat n =
     (if n < 10 then [''0123456789'' ! n]
      else str_nat (n div 10) @ [''0123456789'' ! (n mod 10)])"

declare str_nat.simps [simp del]

text \<open>\<^verbatim>\<open>d.get(key, default)\<close>, the looked-up key being \<open>None\<close> when it is missing.\<close>

definition dict_get :: "'a option \<Rightarrow> 'a \<Rightarrow> 'a" where
  "dict_get v dflt = (case v of None \<Rightarrow> dflt | Some x \<Rightarrow> x)"

text \<open>\<^verbatim>\<open>a or b\<close> on optional text: \<open>a\<close> when it is truthy (present and not empty).\<close>

definition py_or :: "string option \<Rightarrow> string option \<Rightarrow> string option" where
  "py_or a b = (case a of None \<Rightarrow> b | Some s \<Rightarrow> if s = [] then b else Some s)"

text \<open>\<^verbatim>\<open>not v\<close> on optional text: true of \<open>None\<close> and of the empty string.\<close>

definition py_not :: "string option \<Rightarrow> bool" where
  "py_not v = (case v of None \<Rightarrow> True | Some s \<Rightarrow> s = [])"

subsection \<open>Configuration and data\<close>

record config =
  SERPAPI_KEY :: "string option"
  EMAIL_HOST :: string
  EMAIL_PORT :: int
  EMAIL_USER :: "string option"
  EMAIL_PASS :: "string option"
  EMAIL_TO :: "string option"
  JOB_QUERY_TERMS :: "string list"
  LOCATIONS :: "string list"
  MAX_RESULTS :: int
  MIN_DAYS_OLD :: int

definition SERPAPI_SEARCH_URL :: string where
  "SERPAPI_SEARCH_URL = ''https://serpapi.com/search.json''"

definition ENTRY_KEYWORDS :: "string list" where
  "ENTRY_KEYWORDS = [''entry level'', ''junior'', ''fresher'', ''new grad'', ''0-2 years'']"

definition AI_ML_KEYWORDS :: "string list" where
  "AI_ML_KEYWORDS = [''machine learning'', ''ml engineer'', ''ai engineer'', ''deep learning'']"

definition DJANGO_KEYWORDS :: "string list" where
  "DJANGO_KEYWORDS = [''django'', ''python'', ''drf'', ''django rest'']"

definition FULLSTACK_KEYWORDS :: "string list" where
  "FULLSTACK_KEYWORDS = [''full stack'', ''backend'', ''frontend'', ''software engineer'']"

record extensions =
  posted_at :: "string option"

record job =
  title :: "string option"
  company_name :: "string option"
  description :: "string option"
  location :: "string option"
  detected_extensions :: "extensions option"
  apply_link :: "string option"
  link :: "string option"

subsection \<open>The interest filter\<close>

definition matches_interest :: "job \<Rightarrow> bool" where
  "matches_interest job =
     (let text = lower (join '' ''
            [dict_get (title job) [],
             dict_get (company_name job) [],
             dict_get (description job) []])
      in list_ex (\<lambda>k. py_in k text) ENTRY_KEYWORDS
         \<and> list_ex (\<lambda>k. py_in k text)
              (AI_ML_KEYWORDS @ DJANGO_KEYWORDS @ FULLSTACK_KEYWORDS))"

subsection \<open>The digest renderer\<close>

definition rocket :: string where
  "rocket = [CHR 0xF0, CHR 0x9F, CHR 0x9A, CHR 0x80]"

definition html_header :: "string list" where
  \<open>html_header =
     [''<h2>'' @ rocket @ '' Job Finder Results</h2>'',
      ''<p>Click the job title to open the application link in your browser.</p>'',
      ''<ul>'']\<close>

text \<open>The link the loop body chooses: the apply link, else the generic link.\<close>

definition chosen_link :: "job \<Rightarrow> string option" where
  "chosen_link j = py_or (apply_link j) (link j)"

text \<open>The posted date: \<^verbatim>\<open>j.get("detected_extensions", {}).get("posted_at", "N/A")\<close>.\<close>

definition date_posted :: "job \<Rightarrow> string" where
  "date_posted j =
     dict_get (posted_at (dict_get (detected_extensions j) \<lparr>posted_at = None\<rparr>)) ''N/A''"

text \<open>The f-string of the list item, with its six interpolated values.\<close>

definition item_template ::
  "string \<Rightarrow> string \<Rightarrow> string \<Rightarrow> string \<Rightarrow> string \<Rightarrow> string \<Rightarrow> string" where
  \<open>item_template safe_link title' company location' date_posted' snippet =
     nl @ ''    <li>'' @ nl
     @ ''      <strong><a href="'' @ safe_link
     @ ''" target="_blank" rel="noopener noreferrer">'' @ title' @ ''</a></strong><br/>'' @ nl
     @ ''      <em>Company:</em> '' @ company @ ''<br/>'' @ nl
     @ ''      <em>Location:</em> '' @ location' @ ''<br/>'' @ nl
     @ ''      <em>Posted:</em> '' @ date_posted' @ ''<br/>'' @ nl
     @ ''      <p>'' @ snippet @ ''</p><br/>'' @ nl
     @ ''    </li>'' @ nl
     @ ''    ''\<close>

text \<open>
  One pass of the loop body: \<open>None\<close> is the \<^verbatim>\<open>continue\<close> (nothing appended),
  \<open>Some item\<close> the string appended to \<^verbatim>\<open>html_content\<close>. The test
  \<^verbatim>\<open>not link or not link.startswith("http")\<close> is the case distinction on the chosen
  link: missing, empty, or without the prefix.
\<close>

definition render_item :: "job \<Rightarrow> string option" where
  "render_item j =
     (let title' = html_escape (dict_get (title j) ''N/A'') True;
          company = html_escape (dict_get (company_name j) []) True;
          location' = html_escape (dict_get (location j) []) True;
          date_posted' = date_posted j
      in case chosen_link j of
           None \<Rightarrow> None
         | Some link' \<Rightarrow>
             if link' = [] \<or> \<not> startswith link' ''http'' then None
             else
               let safe_link = html_escape link' True;
                   snippet = html_escape (take 250 (dict_get (description j) [])) True
               in Some (item_template safe_link title' company location' date_posted' snippet))"

text \<open>The loop \<^verbatim>\<open>for j in jobs\<close>, with \<^verbatim>\<open>html_content\<close> as accumulator.\<close>

fun render_loop :: "job list \<Rightarrow> string list \<Rightarrow> string list" where
  "render_loop [] html_content = html_content"
| "render_loop (j # js) html_content =
     (case render_item j of
        None \<Rightarrow> render_loop js html_content
      | Some item \<Rightarrow> render_loop js (html_content @ [item]))"

definition build_email_html :: "job list \<Rightarrow> string" where
  "build_email_html jobs =
     (if jobs = [] then ''<p>No new relevant jobs found today.</p>''
      else join nl (render_loop jobs html_header @ [''</ul>'']))"

subsection \<open>The network: requests, outcomes, events\<close>

datatype exc_kind =
  RuntimeError | Timeout | ConnectionError | HTTPError | JSONDecodeError | SMTPException

text \<open>An exception: its class and the text \<^verbatim>\<open>str(e)\<close> gives.\<close>

datatype error = Exc exc_kind string

fun str_error :: "error \<Rightarrow> string" where
  "str_error (Exc k msg) = msg"

record request =
  url :: string
  engine :: string
  q :: string
  api_key :: "string option"
  timeout :: nat

text \<open>
  The decoded body of a response: not JSON (with the decoder's message), or an object
  whose \<^verbatim>\<open>jobs_results\<close> key is missing (\<open>None\<close>) or holds a list of records.
\<close>

datatype json_body = Invalid_JSON string | Object "job list option"

text \<open>
  What \<^verbatim>\<open>requests.get\<close> does: it raises (timeout, transport failure), or returns a
  response with a status code, the text \<^verbatim>\<open>raise_for_status\<close> would raise with, and
  a body.
\<close>

datatype http_outcome = Raises error | Response nat string json_body

record email =
  smtp_host :: string
  smtp_port :: int
  login_user :: "string option"
  login_pass :: "string option"
  msg_from :: "string option"
  msg_to :: "string option"
  msg_subject :: string
  msg_html :: string

datatype event = Http_Get request | Stdout string | Smtp_Session email

text \<open>
  The world outside the script: the answer to the \<open>n\<close>-th search request (counted from 0),
  the outcome of the SMTP session (\<open>None\<close> when it succeeds) and the UTC date at the end
  of the run, already formatted as year-month-day.
\<close>

record world =
  http_get :: "nat \<Rightarrow> request \<Rightarrow> http_outcome"
  smtp_send :: "email \<Rightarrow> error option"
  utc_today :: string

text \<open>The state a run threads through: requests made so far, matches, and the trace.\<close>

record run_state =
  calls :: nat
  jobs_collected :: "job list"
  trace :: "event list"

subsection \<open>The job source client\<close>

definition search_params :: "config \<Rightarrow> string \<Rightarrow> string \<Rightarrow> request" where
  "search_params cfg query loc =
     \<lparr>url = SERPAPI_SEARCH_URL, engine = ''google_jobs'', q = query @ '' in '' @ loc,
      api_key = SERPAPI_KEY cfg, timeout = 30\<rparr>"

definition search_jobs ::
  "config \<Rightarrow> world \<Rightarrow> string \<Rightarrow> string \<Rightarrow> run_state \<Rightarrow> (error + job list) \<times> run_state" where
  "search_jobs cfg w query loc st =
     (let params = search_params cfg query loc;
          st' = st\<lparr>calls := calls st + 1, trace := trace st @ [Http_Get params]\<rparr>
      in case http_get w (calls st) params of
           Raises e \<Rightarrow> (Inl e, st')
         | Response status text body \<Rightarrow>
             if 400 \<le> status \<and> status < 600 then (Inl (Exc HTTPError text), st')
             else (case body of
                     Invalid_JSON msg \<Rightarrow> (Inl (Exc JSONDecodeError msg), st')
                   | Object results \<Rightarrow> (Inr (dict_get results []), st')))"

subsection \<open>The notifier\<close>

definition send_email ::
  "config \<Rightarrow> world \<Rightarrow> string \<Rightarrow> string \<Rightarrow> run_state \<Rightarrow> (error + unit) \<times> run_state" where
  "send_email cfg w subject html_body st =
     (let msg = \<lparr>smtp_host = EMAIL_HOST cfg, smtp_port = EMAIL_PORT cfg,
                 login_user = EMAIL_USER cfg, login_pass = EMAIL_PASS cfg,
                 msg_from = EMAIL_USER cfg, msg_to = EMAIL_TO cfg,
                 msg_subject = subject, msg_html = html_body\<rparr>;
          st' = st\<lparr>trace := trace st @ [Smtp_Session msg]\<rparr>
      in case smtp_send w msg of
           Some e \<Rightarrow> (Inl e, st')
         | None \<Rightarrow> (Inr (), st'))"

subsection \<open>The orchestrator\<close>

definition cross_mark :: string where
  "cross_mark = [CHR 0xE2, CHR 0x9D, CHR 0x8C]"

definition check_mark :: string where
  "check_mark = [CHR 0xE2, CHR 0x9C, CHR 0x85]"

definition em_dash :: string where
  "em_dash = [CHR 0xE2, CHR 0x80, CHR 0x94]"

text \<open>The loop \<^verbatim>\<open>for j in results\<close>: a matching record is appended.\<close>

fun results_loop :: "job list \<Rightarrow> job list \<Rightarrow> job list" where
  "results_loop [] collected = collected"
| "results_loop (j # js) collected =
     (if matches_interest j then results_loop js (collected @ [j])
      else results_loop js collected)"

text \<open>The \<^verbatim>\<open>try\<close> statement for one (query, location) pair.\<close>

definition try_pair :: "config \<Rightarrow> world \<Rightarrow> string \<Rightarrow> string \<Rightarrow> run_state \<Rightarrow> run_state" where
  "try_pair cfg w query loc st =
     (case search_jobs cfg w query loc st of
        (Inr results, st') \<Rightarrow>
          st'\<lparr>jobs_collected := results_loop results (jobs_collected st')\<rparr>
      | (Inl e, st') \<Rightarrow>
          st'\<lparr>trace := trace st' @
             [Stdout (''Error fetching '' @ query @ '' in '' @ loc @ '': '' @ str_error e)]\<rparr>)"

text \<open>The loop \<^verbatim>\<open>for loc in LOCATIONS\<close>.\<close>

fun locations_loop ::
  "config \<Rightarrow> world \<Rightarrow> string \<Rightarrow> string list \<Rightarrow> run_state \<Rightarrow> run_state" where
  "locations_loop cfg w query [] st = st"
| "locations_loop cfg w query (loc # locs) st =
     locations_loop cfg w query locs (try_pair cfg w query loc st)"

text \<open>The loop \<^verbatim>\<open>for query in JOB_QUERY_TERMS\<close>.\<close>

fun terms_loop :: "config \<Rightarrow> world \<Rightarrow> string list \<Rightarrow> run_state \<Rightarrow> run_state" where
  "terms_loop cfg w [] st = st"
| "terms_loop cfg w (query # queries) st =
     terms_loop cfg w queries (locations_loop cfg w query (LOCATIONS cfg) st)"

definition subject_line :: "nat \<Rightarrow> string \<Rightarrow> string" where
  "subject_line n today =
     ''[Job Alert] '' @ str_nat n @ '' jobs found '' @ em_dash @ '' '' @ today"

definition main :: "config \<Rightarrow> world \<Rightarrow> (error + unit) \<times> event list" where
  "main cfg w =
     (if py_not (SERPAPI_KEY cfg)
      then (Inl (Exc RuntimeError (cross_mark @ '' Missing SERPAPI_API_KEY in environment.'')), [])
      else
        let st = terms_loop cfg w (JOB_QUERY_TERMS cfg)
                   \<lparr>calls = 0, jobs_collected = [], trace = []\<rparr>;
            html_body = build_email_html (jobs_collected st);
            subject = subject_line (length (jobs_collected st)) (utc_today w)
        in case send_email cfg w subject html_body st of
             (Inl e, st') \<Rightarrow> (Inl e, trace st')
           | (Inr u, st') \<Rightarrow>
               (Inr (),
                trace st' @
                  [Stdout (check_mark @ '' Email sent with ''
                           @ str_nat (length (jobs_collected st)) @ '' job(s).'')]))"

subsection \<open>Notions of the specification\<close>

text \<open>
  The specification's words, as definitions of their own, to be compared with the code.
  Plain substring containment: \<open>k\<close> occurs in \<open>t\<close>.
\<close>

definition contains :: "string \<Rightarrow> string \<Rightarrow> bool" where
  "contains t k = (\<exists>pre suf. t = pre @ k @ suf)"

text \<open>Case-insensitive containment: some substring of \<open>t\<close> is \<open>k\<close> up to letter case.\<close>

definition contains_ci :: "string \<Rightarrow> string \<Rightarrow> bool" where
  "contains_ci t k = (\<exists>u. contains t u \<and> lower u = lower k)"

text \<open>
  The text the filter looks at: title, company name and description, a missing field as
  empty text, joined by spaces; the haystack is its lowercase form.
\<close>

definition text_or_empty :: "string option \<Rightarrow> string" where
  "text_or_empty v = (case v of None \<Rightarrow> [] | Some s \<Rightarrow> s)"

definition raw_text :: "job \<Rightarrow> string" where
  "raw_text j =
     text_or_empty (title j) @ '' '' @ text_or_empty (company_name j) @ '' ''
     @ text_or_empty (description j)"

definition haystack :: "job \<Rightarrow> string" where
  "haystack j = lower (raw_text j)"

text \<open>
  A necessary condition of a well-formed absolute HTTP(S) URL: it begins with one of the
  two schemes and their separator.
\<close>

definition has_http_scheme :: "string \<Rightarrow> bool" where
  "has_http_scheme s = (prefix ''http://'' s \<or> prefix ''https://'' s)"

text \<open>The list items the renderer emits for a sequence of jobs, in order.\<close>

definition list_items :: "job list \<Rightarrow> string list" where
  "list_items jobs = render_loop jobs []"

text \<open>The initial state of a run, and the matches a run has accumulated at its end.\<close>

definition init_state :: run_state where
  "init_state = \<lparr>calls = 0, jobs_collected = [], trace = []\<rparr>"

definition accepted_jobs :: "config \<Rightarrow> world \<Rightarrow> job list" where
  "accepted_jobs cfg w = jobs_collected (terms_loop cfg w (JOB_QUERY_TERMS cfg) init_state)"

text \<open>
  Discovery order. The (term, location) pairs, term-major and location-minor; the result
  of the \<open>i\<close>-th search call; what a pair contributes (the records of a successful call
  that pass the filter, in the order of the response, and nothing for a failed call).
\<close>

definition pairs :: "config \<Rightarrow> (string \<times> string) list" where
  "pairs cfg = concat (map (\<lambda>query. map (\<lambda>loc. (query, loc)) (LOCATIONS cfg)) (JOB_QUERY_TERMS cfg))"

definition pair_result :: "config \<Rightarrow> world \<Rightarrow> nat \<Rightarrow> string \<Rightarrow> string \<Rightarrow> error + job list" where
  "pair_result cfg w i query loc =
     fst (search_jobs cfg w query loc \<lparr>calls = i, jobs_collected = [], trace = []\<rparr>)"

definition contribution :: "config \<Rightarrow> world \<Rightarrow> nat \<times> string \<times> string \<Rightarrow> job list" where
  "contribution cfg w p =
     (case p of (i, query, loc) \<Rightarrow>
        (case pair_result cfg w i query loc of
           Inl e \<Rightarrow> []
         | Inr results \<Rightarrow> filter matches_interest results))"

definition discovery_order :: "config \<Rightarrow> world \<Rightarrow> job list" where
  "discovery_order cfg w = concat (map (contribution cfg w) (enumerate 0 (pairs cfg)))"

text \<open>The two nested loops as one pass over a list of pairs.\<close>

fun run_pairs :: "config \<Rightarrow> world \<Rightarrow> (string \<times> string) list \<Rightarrow> run_state \<Rightarrow> run_state" where
  "run_pairs cfg w [] st = st"
| "run_pairs cfg w (p # ps) st = run_pairs cfg w ps (try_pair cfg w (fst p) (snd p) st)"

text \<open>The events of a trace, by kind.\<close>

definition http_requests :: "event list \<Rightarrow> request list" where
  "http_requests tr = concat (map (\<lambda>e. case e of Http_Get r \<Rightarrow> [r] | _ \<Rightarrow> []) tr)"

definition smtp_sessions :: "event list \<Rightarrow> email list" where
  "smtp_sessions tr = concat (map (\<lambda>e. case e of Smtp_Session m \<Rightarrow> [m] | _ \<Rightarrow> []) tr)"

definition printed :: "event list \<Rightarrow> string list" where
  "printed tr = concat (map (\<lambda>e. case e of Stdout s \<Rightarrow> [s] | _ \<Rightarrow> []) tr)"

text \<open>The escaped form of one character: what the five replacements make of it.\<close>

definition escape_char :: "char \<Rightarrow> string" where
  \<open>escape_char c =
     (if c = CHR ''&'' then ''&amp;''
      else if c = CHR ''<'' then ''&lt;''
      else if c = CHR ''>'' then ''&gt;''
      else if c = CHR 0x22 then ''&quot;''
      else if c = CHR 0x27 then ''&#x27;''
      else [c])\<close>

text \<open>The renderer's precondition on the chosen link: present, not empty, beginning with http.\<close>

definition link_usable :: "job \<Rightarrow> bool" where
  "link_usable j =
     (case chosen_link j of None \<Rightarrow> False | Some l \<Rightarrow> l \<noteq> [] \<and> startswith l ''http'')"

text \<open>The events of one pair: the request, and the logged line when the call fails.\<close>

definition pair_events :: "config \<Rightarrow> world \<Rightarrow> nat \<times> string \<times> string \<Rightarrow> event list" where
  "pair_events cfg w p =
     (case p of (i, query, loc) \<Rightarrow>
        Http_Get (search_params cfg query loc) #
        (case pair_result cfg w i query loc of
           Inl e \<Rightarrow>
             [Stdout (''Error fetching '' @ query @ '' in '' @ loc @ '': '' @ str_error e)]
         | Inr results \<Rightarrow> []))"

text \<open>The message a run hands to the SMTP session.\<close>

definition digest_email :: "config \<Rightarrow> world \<Rightarrow> email" where
  "digest_email cfg w =
     \<lparr>smtp_host = EMAIL_HOST cfg, smtp_port = EMAIL_PORT cfg,
      login_user = EMAIL_USER cfg, login_pass = EMAIL_PASS cfg,
      msg_from = EMAIL_USER cfg, msg_to = EMAIL_TO cfg,
      msg_subject = subject_line (length (accepted_jobs cfg w)) (utc_today w),
      msg_html = build_email_html (accepted_jobs cfg w)\<rparr>"

subsection \<open>Example inputs\<close>

definition fullstack_job :: job where
  "fullstack_job =
     \<lparr>title = Some ''Junior Full Stack Developer'', company_name = Some ''Acme'',
      description = Some ''full stack web role'', location = Some ''Remote'',
      detected_extensions = Some \<lparr>posted_at = Some ''3 days ago''\<rparr>,
      apply_link = Some ''https://jobs.example.com/apply/1'', link = None\<rparr>"

definition nolink_job :: job where
  "nolink_job =
     \<lparr>title = Some ''Fresher Django Developer'', company_name = None,
      description = None, location = None, detected_extensions = None,
      apply_link = None, link = Some ''ftp://jobs.example.com/2''\<rparr>"

definition httpx_job :: job where
  "httpx_job =
     \<lparr>title = Some ''Junior Python Developer'', company_name = None,
      description = None, location = None, detected_extensions = None,
      apply_link = Some ''httpx'', link = None\<rparr>"

definition markup_date_job :: job where
  "markup_date_job =
     \<lparr>title = Some ''Junior Python Developer'', company_name = Some ''Acme'',
      description = Some ''python'', location = Some ''Remote'',
      detected_extensions = Some \<lparr>posted_at = Some ''<script>alert(1)</script>''\<rparr>,
      apply_link = Some ''https://jobs.example.com/apply/3'', link = None\<rparr>"

definition markup_title_job :: job where
  "markup_title_job =
     \<lparr>title = Some ''Junior Python Developer <script>alert(1)</script>'',
      company_name = Some ''Acme'', description = Some ''python'', location = Some ''Remote'',
      detected_extensions = Some \<lparr>posted_at = Some ''3 days ago''\<rparr>,
      apply_link = Some ''https://jobs.example.com/apply/3'', link = None\<rparr>"

definition empty_apply_job :: job where
  "empty_apply_job =
     \<lparr>title = Some ''Junior Backend Engineer'', company_name = None,
      description = None, location = None, detected_extensions = None,
      apply_link = Some [], link = Some ''http://jobs.example.com/4?a=1&b=2''\<rparr>"

definition long_description_job :: job where
  "long_description_job =
     \<lparr>title = Some ''Junior Python Developer'', company_name = None,
      description = Some (replicate 249 (CHR ''a'') @ ''<b>bold</b> python''),
      location = None, detected_extensions = None,
      apply_link = Some ''https://jobs.example.com/apply/6'', link = None\<rparr>"

definition senior_job :: job where
  "senior_job =
     \<lparr>title = Some ''Senior Python Developer'', company_name = None,
      description = None, location = None, detected_extensions = None,
      apply_link = Some ''https://jobs.example.com/apply/5'', link = None\<rparr>"

definition example_config :: config where
  "example_config =
     \<lparr>SERPAPI_KEY = Some ''key'', EMAIL_HOST = ''smtp.gmail.com'', EMAIL_PORT = 587,
      EMAIL_USER = Some ''me@example.com'', EMAIL_PASS = Some ''secret'',
      EMAIL_TO = Some ''me@example.com'',
      JOB_QUERY_TERMS = [''entry level Full Stack Developer''],
      LOCATIONS = [''Remote'', ''India''], MAX_RESULTS = 25, MIN_DAYS_OLD = 4\<rparr>"

text \<open>
  A world whose first search call times out and whose second returns three records; the
  SMTP session succeeds.
\<close>

definition example_world :: world where
  "example_world =
     \<lparr>http_get = (\<lambda>n r. if n = 0 then Raises (Exc Timeout ''timed out'')
                         else Response 200 [] (Object (Some [fullstack_job, senior_job, nolink_job]))),
      smtp_send = (\<lambda>m. None),
      utc_today = ''2024-05-01''\<rparr>"

section \<open>Properties\<close>

subsection \<open>Text primitives\<close>

lemma contains_iff_sublist: "contains t k \<longleftrightarrow> sublist k t"
  by (auto simp: contains_def sublist_def)

lemma py_in_iff_contains: "py_in k t \<longleftrightarrow> contains t k"
  by (induction t) (simp_all add: contains_iff_sublist sublist_Cons_right)

lemma map_eq_append3:
  assumes "map f t = p @ m @ s"
  shows "\<exists>a b c. t = a @ b @ c \<and> map f b = m"
proof -
  let ?a = "take (length p) t"
  let ?b = "take (length m) (drop (length p) t)"
  let ?c = "drop (length m) (drop (length p) t)"
  have "t = ?a @ ?b @ ?c"
    by (simp only: append_take_drop_id)
  moreover have "map f ?b = take (length m) (drop (length p) (map f t))"
    by (simp add: take_map drop_map)
  then have "map f ?b = m"
    using assms by simp
  ultimately show ?thesis by blast
qed

lemma contains_lower: "contains (lower t) (lower k) \<longleftrightarrow> contains_ci t k"
proof
  assume "contains (lower t) (lower k)"
  then obtain pre suf where "map lower_char t = pre @ map lower_char k @ suf"
    by (auto simp: contains_def lower_def)
  from map_eq_append3 [OF this]
  obtain a b c where "t = a @ b @ c" and "map lower_char b = map lower_char k"
    by blast
  then show "contains_ci t k"
    by (auto simp: contains_ci_def contains_def lower_def)
next
  assume "contains_ci t k"
  then obtain u pre suf where "t = pre @ u @ suf" and "lower u = lower k"
    by (auto simp: contains_ci_def contains_def)
  then have "lower t = lower pre @ lower k @ lower suf"
    by (simp add: lower_def)
  then show "contains (lower t) (lower k)"
    unfolding contains_def by blast
qed

lemma keywords_lowercase:
  "\<forall>k \<in> set (ENTRY_KEYWORDS @ AI_ML_KEYWORDS @ DJANGO_KEYWORDS @ FULLSTACK_KEYWORDS).
     lower k = k"
  by (simp add: ENTRY_KEYWORDS_def AI_ML_KEYWORDS_def DJANGO_KEYWORDS_def
      FULLSTACK_KEYWORDS_def lower_def lower_char_def)

lemma filter_text_eq_haystack:
  "lower (join '' '' [dict_get (title j) [], dict_get (company_name j) [],
                      dict_get (description j) []]) = haystack j"
  by (simp add: haystack_def raw_text_def dict_get_def text_or_empty_def)

subsection \<open>The interest filter\<close>

text \<open>
  Claim C1. The interest filter accepts a record if and only if its haystack (title,
  company name and description, a missing field as empty text, joined by spaces, in
  lowercase) contains a keyword of the entry-level list and a keyword of the union of the
  machine-learning, Django/Python and full-stack lists. Containment is plain substring containment,
  and, the keywords being lowercase, it is containment in the raw text up to letter case.
\<close>

theorem matches_interest_iff:
  "(matches_interest j \<longleftrightarrow>
      (\<exists>k \<in> set ENTRY_KEYWORDS. contains (haystack j) k)
      \<and> (\<exists>k \<in> set AI_ML_KEYWORDS \<union> set DJANGO_KEYWORDS \<union> set FULLSTACK_KEYWORDS.
            contains (haystack j) k))
   \<and> (matches_interest j \<longleftrightarrow>
      (\<exists>k \<in> set ENTRY_KEYWORDS. contains_ci (raw_text j) k)
      \<and> (\<exists>k \<in> set AI_ML_KEYWORDS \<union> set DJANGO_KEYWORDS \<union> set FULLSTACK_KEYWORDS.
            contains_ci (raw_text j) k))"
proof -
  have code: "matches_interest j \<longleftrightarrow>
      (\<exists>k \<in> set ENTRY_KEYWORDS. contains (haystack j) k)
      \<and> (\<exists>k \<in> set AI_ML_KEYWORDS \<union> set DJANGO_KEYWORDS \<union> set FULLSTACK_KEYWORDS.
            contains (haystack j) k)"
    unfolding matches_interest_def filter_text_eq_haystack Let_def
    by (simp add: list_ex_iff py_in_iff_contains Un_assoc)
  have ci: "contains (haystack j) k \<longleftrightarrow> contains_ci (raw_text j) k"
    if "k \<in> set (ENTRY_KEYWORDS @ AI_ML_KEYWORDS @ DJANGO_KEYWORDS @ FULLSTACK_KEYWORDS)" for k
  proof -
    from that keywords_lowercase have "lower k = k" by blast
    with contains_lower [of "raw_text j" k] show ?thesis
      by (simp add: haystack_def)
  qed
  have "(\<exists>k \<in> set ENTRY_KEYWORDS. contains (haystack j) k)
        \<longleftrightarrow> (\<exists>k \<in> set ENTRY_KEYWORDS. contains_ci (raw_text j) k)"
    using ci by auto
  moreover have "(\<exists>k \<in> set AI_ML_KEYWORDS \<union> set DJANGO_KEYWORDS \<union> set FULLSTACK_KEYWORDS.
            contains (haystack j) k)
        \<longleftrightarrow> (\<exists>k \<in> set AI_ML_KEYWORDS \<union> set DJANGO_KEYWORDS \<union> set FULLSTACK_KEYWORDS.
            contains_ci (raw_text j) k)"
    using ci by auto
  ultimately show ?thesis using code by simp
qed

theorem matches_interest_iff_witness:
  "matches_interest fullstack_job
   \<and> (\<exists>k \<in> set ENTRY_KEYWORDS. contains (haystack fullstack_job) k)
   \<and> (\<exists>k \<in> set AI_ML_KEYWORDS \<union> set DJANGO_KEYWORDS \<union> set FULLSTACK_KEYWORDS.
         contains_ci (raw_text fullstack_job) k)"
proof -
  have "matches_interest fullstack_job"
    by code_simp
  with matches_interest_iff [of fullstack_job] show ?thesis
    by blast
qed

subsection \<open>Escaping\<close>

lemma replace_append: "replace old new (a @ b) = replace old new a @ replace old new b"
  by (simp add: replace_def)

lemma html_escape_Nil: "html_escape [] True = []"
  by (simp add: html_escape_def replace_def)

lemma html_escape_Cons: "html_escape (c # s) True = escape_char c @ html_escape s True"
  by (simp add: html_escape_def replace_def escape_char_def Let_def)

lemma html_escape_chars: "html_escape s True = concat (map escape_char s)"
  by (induction s) (simp_all add: html_escape_Nil html_escape_Cons)

lemma escape_char_no_markup:
  "set (escape_char c) \<inter> {CHR ''<'', CHR ''>'', CHR 0x22, CHR 0x27} = {}"
  by (simp add: escape_char_def)

lemma html_escape_no_markup:
  "set (html_escape s True) \<inter> {CHR ''<'', CHR ''>'', CHR 0x22, CHR 0x27} = {}"
  using escape_char_no_markup by (induction s) (auto simp: html_escape_Nil html_escape_Cons)

lemma length_escape_char: "1 \<le> length (escape_char c)"
  by (simp add: escape_char_def)

lemma length_html_escape: "length s \<le> length (html_escape s True)"
proof (induction s)
  case Nil
  show ?case by simp
next
  case (Cons c s)
  with length_escape_char [of c] show ?case
    by (simp add: html_escape_Cons)
qed

lemma html_escape_ampersands:
  "html_escape (replicate n (CHR ''&'')) True = concat (replicate n ''&amp;'')"
  by (induction n) (simp_all add: html_escape_Nil html_escape_Cons escape_char_def)

lemma length_escape_ampersands:
  "length (html_escape (replicate n (CHR ''&'')) True) = 5 * n"
  by (induction n) (simp_all add: html_escape_Nil html_escape_Cons escape_char_def)

lemma html_escape_append:
  "html_escape (a @ b) True = html_escape a True @ html_escape b True"
  by (simp add: html_escape_chars)

lemma html_escape_replicate_plain:
  "escape_char c = [c] \<Longrightarrow> html_escape (replicate n c) True = replicate n c"
  by (induction n) (simp_all add: html_escape_Nil html_escape_Cons)

subsection \<open>The digest renderer\<close>

lemma render_item_eq:
  "render_item j =
     (if link_usable j
      then Some (item_template
                   (html_escape (the (chosen_link j)) True)
                   (html_escape (dict_get (title j) ''N/A'') True)
                   (html_escape (dict_get (company_name j) []) True)
                   (html_escape (dict_get (location j) []) True)
                   (date_posted j)
                   (html_escape (take 250 (dict_get (description j) [])) True))
      else None)"
  by (simp add: render_item_def link_usable_def Let_def split: option.splits)

lemma render_loop_eq:
  "render_loop jobs acc = acc @ map (the \<circ> render_item) (filter link_usable jobs)"
proof (induction jobs arbitrary: acc)
  case Nil
  show ?case by simp
next
  case (Cons j jobs)
  then show ?case
    by (simp add: render_item_eq)
qed

lemma length_list_items: "length (list_items jobs) = length (filter link_usable jobs)"
  by (simp add: list_items_def render_loop_eq)

lemma build_email_html_items:
  "jobs \<noteq> [] \<Longrightarrow>
     build_email_html jobs = join nl (html_header @ list_items jobs @ [''</ul>''])"
  by (simp add: build_email_html_def list_items_def render_loop_eq)

lemma render_item_snippet:
  assumes "link_usable j"
  shows \<open>render_item j =
     Some ((nl @ ''    <li>'' @ nl
          @ ''      <strong><a href="'' @ html_escape (the (chosen_link j)) True
          @ ''" target="_blank" rel="noopener noreferrer">''
          @ html_escape (dict_get (title j) ''N/A'') True @ ''</a></strong><br/>'' @ nl
          @ ''      <em>Company:</em> '' @ html_escape (dict_get (company_name j) []) True
          @ ''<br/>'' @ nl
          @ ''      <em>Location:</em> '' @ html_escape (dict_get (location j) []) True
          @ ''<br/>'' @ nl
          @ ''      <em>Posted:</em> '' @ date_posted j)
         @ ''<br/>'' @ [CHR 0x0A] @ ''      <p>''
         @ html_escape (take 250 (dict_get (description j) [])) True
         @ ''</p><br/>'' @ [CHR 0x0A] @ ''    </li>'' @ [CHR 0x0A] @ ''    '')\<close>
  using assms by (simp add: render_item_eq item_template_def nl_def)

text \<open>
  Claim C3. Each value interpolated into a list item (title, company name, location,
  posted date, link target, description snippet) is HTML-escaped first, so that markup
  characters of a record never reach the digest unescaped. The code escapes five of the
  six values and interpolates the posted date as it is: for a record whose posted date is
  a script element, the digest contains that element verbatim, while the same element in
  the title of a record arrives escaped.
\<close>

theorem posted_date_interpolated_raw:
  \<open>link_usable markup_date_job
   \<and> contains (build_email_html [markup_date_job])
         ''<em>Posted:</em> <script>alert(1)</script><br/>''
   \<and> link_usable markup_title_job
   \<and> \<not> contains (build_email_html [markup_title_job]) ''<script>''
   \<and> contains (build_email_html [markup_title_job])
         ''&lt;script&gt;alert(1)&lt;/script&gt;''\<close>
  unfolding py_in_iff_contains [symmetric] by code_simp

text \<open>
  Claim C4, as stated: every rendered record has a chosen link that is a well-formed
  absolute HTTP(S) URL. The renderer tests the prefix \<open>http\<close> only: the record whose
  apply link is the text \<open>httpx\<close> is rendered, and that text has no HTTP(S) scheme.
\<close>

theorem rendered_link_wellformed_counterexample:
  "render_item httpx_job \<noteq> None
   \<and> chosen_link httpx_job = Some ''httpx''
   \<and> \<not> has_http_scheme ''httpx''"
  by (simp add: render_item_eq link_usable_def chosen_link_def py_or_def httpx_job_def
      startswith_def has_http_scheme_def)

text \<open>
  Claim C4, amended. The renderer emits a list item for a record exactly when its chosen
  link (the apply link, else the generic link) is present, not empty and begins with
  \<open>http\<close>; the list items of a sequence are those of its records with such a link, in
  order.
\<close>

theorem rendered_iff_link_begins_http:
  "(render_item j \<noteq> None) =
     (\<exists>l. chosen_link j = Some l \<and> l \<noteq> [] \<and> startswith l ''http'')
   \<and> list_items jobs = map (the \<circ> render_item) (filter link_usable jobs)
   \<and> link_usable j =
     (\<exists>l. chosen_link j = Some l \<and> l \<noteq> [] \<and> startswith l ''http'')"
  by (auto simp: render_item_eq link_usable_def list_items_def render_loop_eq
      split: option.splits)

theorem rendered_iff_link_begins_http_witness:
  "render_item fullstack_job \<noteq> None
   \<and> (\<exists>l. chosen_link fullstack_job = Some l \<and> l \<noteq> [] \<and> startswith l ''http'')
   \<and> render_item nolink_job = None"
proof -
  have "chosen_link fullstack_job = Some ''https://jobs.example.com/apply/1''"
    by (simp add: chosen_link_def py_or_def fullstack_job_def)
  moreover have "chosen_link nolink_job = Some ''ftp://jobs.example.com/2''"
    by (simp add: chosen_link_def py_or_def nolink_job_def)
  ultimately show ?thesis
    using rendered_iff_link_begins_http [of fullstack_job "[]"]
      rendered_iff_link_begins_http [of nolink_job "[]"]
    by (simp add: startswith_def)
qed

text \<open>
  Claim C5. The description snippet of a rendered record is the escaped form of the first
  250 characters of the raw description: the text is truncated first and escaped
  afterwards, and that text is what stands in the paragraph closing the list item. The
  truncated text has at most 250 characters and its escaped form is never shorter, and
  can be longer than 250 characters, in which case it differs from the truncation of the
  escaped description.
\<close>

theorem snippet_truncate_then_escape:
  \<open>(render_item j = Some item \<longrightarrow>
      (\<exists>pre. item =
         pre @ ''<br/>'' @ [CHR 0x0A] @ ''      <p>''
         @ html_escape (take 250 (dict_get (description j) [])) True
         @ ''</p><br/>'' @ [CHR 0x0A] @ ''    </li>'' @ [CHR 0x0A] @ ''    ''))
   \<and> length (take 250 t) = min (length t) 250
   \<and> length (take 250 t) \<le> length (html_escape (take 250 t) True)
   \<and> (\<exists>u. 250 < length (html_escape (take 250 u) True)
            \<and> html_escape (take 250 u) True \<noteq> take 250 (html_escape u True))\<close>
proof (intro conjI)
  show \<open>render_item j = Some item \<longrightarrow>
      (\<exists>pre. item =
         pre @ ''<br/>'' @ [CHR 0x0A] @ ''      <p>''
         @ html_escape (take 250 (dict_get (description j) [])) True
         @ ''</p><br/>'' @ [CHR 0x0A] @ ''    </li>'' @ [CHR 0x0A] @ ''    '')\<close>
  proof
    assume r: "render_item j = Some item"
    then have u: "link_usable j"
      by (simp add: render_item_eq split: if_splits)
    let ?pre = \<open>nl @ ''    <li>'' @ nl
          @ ''      <strong><a href="'' @ html_escape (the (chosen_link j)) True
          @ ''" target="_blank" rel="noopener noreferrer">''
          @ html_escape (dict_get (title j) ''N/A'') True @ ''</a></strong><br/>'' @ nl
          @ ''      <em>Company:</em> '' @ html_escape (dict_get (company_name j) []) True
          @ ''<br/>'' @ nl
          @ ''      <em>Location:</em> '' @ html_escape (dict_get (location j) []) True
          @ ''<br/>'' @ nl
          @ ''      <em>Posted:</em> '' @ date_posted j\<close>
    from r render_item_snippet [OF u]
    have eq: \<open>item = ?pre @ ''<br/>'' @ [CHR 0x0A] @ ''      <p>''
         @ html_escape (take 250 (dict_get (description j) [])) True
         @ ''</p><br/>'' @ [CHR 0x0A] @ ''    </li>'' @ [CHR 0x0A] @ ''    ''\<close>
      by (simp only: option.inject)
    show \<open>\<exists>pre. item =
         pre @ ''<br/>'' @ [CHR 0x0A] @ ''      <p>''
         @ html_escape (take 250 (dict_get (description j) [])) True
         @ ''</p><br/>'' @ [CHR 0x0A] @ ''    </li>'' @ [CHR 0x0A] @ ''    ''\<close>
      by (rule exI [where x = "?pre"]) (rule eq)
  qed
  show "length (take 250 t) = min (length t) 250"
    by simp
  show "length (take 250 t) \<le> length (html_escape (take 250 t) True)"
    by (rule length_html_escape)
  show "\<exists>u. 250 < length (html_escape (take 250 u) True)
            \<and> html_escape (take 250 u) True \<noteq> take 250 (html_escape u True)"
  proof -
    let ?u = "replicate 251 (CHR ''&'')"
    have "length (html_escape (take 250 ?u) True) = 1250"
      by (simp add: length_escape_ampersands)
    moreover have "length (take 250 (html_escape ?u True)) = 250"
      by (simp add: length_escape_ampersands)
    ultimately have "250 < length (html_escape (take 250 ?u) True)
        \<and> html_escape (take 250 ?u) True \<noteq> take 250 (html_escape ?u True)"
      by auto
    then show ?thesis ..
  qed
qed

theorem snippet_truncate_then_escape_witness:
  \<open>render_item long_description_job \<noteq> None
   \<and> length (dict_get (description long_description_job) []) = 267
   \<and> (\<exists>pre. the (render_item long_description_job) =
         pre @ ''<br/>'' @ [CHR 0x0A] @ ''      <p>''
         @ (replicate 249 (CHR ''a'') @ ''&lt;'')
         @ ''</p><br/>'' @ [CHR 0x0A] @ ''    </li>'' @ [CHR 0x0A] @ ''    '')\<close>
proof (intro conjI)
  show r: "render_item long_description_job \<noteq> None"
    by (simp add: render_item_eq link_usable_def chosen_link_def py_or_def
        long_description_job_def startswith_def)
  then obtain item where i: "render_item long_description_job = Some item"
    by blast
  have d: "dict_get (description long_description_job) [] =
      replicate 249 (CHR ''a'') @ ''<b>bold</b> python''"
    by (simp add: dict_get_def long_description_job_def)
  show "length (dict_get (description long_description_job) []) = 267"
    by (simp add: d)
  have "take 250 (replicate 249 (CHR ''a'') @ ''<b>bold</b> python'') =
      replicate 249 (CHR ''a'') @ ''<''"
    by simp
  then have e: "html_escape (take 250 (dict_get (description long_description_job) [])) True =
      replicate 249 (CHR ''a'') @ ''&lt;''"
    by (simp add: d html_escape_append html_escape_replicate_plain html_escape_Cons
        html_escape_Nil escape_char_def)
  from snippet_truncate_then_escape [of long_description_job item "[]"]
  have \<open>render_item long_description_job = Some item \<longrightarrow>
      (\<exists>pre. item =
         pre @ ''<br/>'' @ [CHR 0x0A] @ ''      <p>''
         @ html_escape (take 250 (dict_get (description long_description_job) [])) True
         @ ''</p><br/>'' @ [CHR 0x0A] @ ''    </li>'' @ [CHR 0x0A] @ ''    '')\<close>
    by (rule conjunct1)
  then show \<open>\<exists>pre. the (render_item long_description_job) =
         pre @ ''<br/>'' @ [CHR 0x0A] @ ''      <p>''
         @ (replicate 249 (CHR ''a'') @ ''&lt;'')
         @ ''</p><br/>'' @ [CHR 0x0A] @ ''    </li>'' @ [CHR 0x0A] @ ''    ''\<close>
    by (simp only: i e option.sel simp_thms)
qed

text \<open>
  Claim C10. When the apply link of a record is present but empty, the renderer falls
  back to the generic link: that link is the chosen one, its escaped form is the
  \<open>href\<close> of the anchor of the list item when it begins with \<open>http\<close>, and the record
  is skipped when there is no generic link.
\<close>

theorem empty_apply_link_falls_back:
  \<open>apply_link j = Some [] \<Longrightarrow>
     chosen_link j = link j
     \<and> (\<forall>l. link j = Some l \<and> startswith l ''http'' \<longrightarrow>
           render_item j =
             Some ([CHR 0x0A] @ ''    <li>'' @ [CHR 0x0A]
                   @ ''      <strong><a href="'' @ html_escape l True
                   @ ''" target="_blank" rel="noopener noreferrer">''
                   @ html_escape (dict_get (title j) ''N/A'') True
                   @ ''</a></strong><br/>'' @ [CHR 0x0A]
                   @ ''      <em>Company:</em> ''
                   @ html_escape (dict_get (company_name j) []) True @ ''<br/>'' @ [CHR 0x0A]
                   @ ''      <em>Location:</em> ''
                   @ html_escape (dict_get (location j) []) True @ ''<br/>'' @ [CHR 0x0A]
                   @ ''      <em>Posted:</em> '' @ date_posted j @ ''<br/>'' @ [CHR 0x0A]
                   @ ''      <p>''
                   @ html_escape (take 250 (dict_get (description j) [])) True
                   @ ''</p><br/>'' @ [CHR 0x0A]
                   @ ''    </li>'' @ [CHR 0x0A]
                   @ ''    ''))
     \<and> (link j = None \<longrightarrow> render_item j = None)\<close>
proof -
  assume a: "apply_link j = Some []"
  then have c: "chosen_link j = link j"
    by (simp add: chosen_link_def py_or_def)
  have n: "render_item j = None" if "link j = None"
    using that c by (simp add: render_item_eq link_usable_def)
  have r: \<open>render_item j =
             Some ([CHR 0x0A] @ ''    <li>'' @ [CHR 0x0A]
                   @ ''      <strong><a href="'' @ html_escape l True
                   @ ''" target="_blank" rel="noopener noreferrer">''
                   @ html_escape (dict_get (title j) ''N/A'') True
                   @ ''</a></strong><br/>'' @ [CHR 0x0A]
                   @ ''      <em>Company:</em> ''
                   @ html_escape (dict_get (company_name j) []) True @ ''<br/>'' @ [CHR 0x0A]
                   @ ''      <em>Location:</em> ''
                   @ html_escape (dict_get (location j) []) True @ ''<br/>'' @ [CHR 0x0A]
                   @ ''      <em>Posted:</em> '' @ date_posted j @ ''<br/>'' @ [CHR 0x0A]
                   @ ''      <p>''
                   @ html_escape (take 250 (dict_get (description j) [])) True
                   @ ''</p><br/>'' @ [CHR 0x0A]
                   @ ''    </li>'' @ [CHR 0x0A]
                   @ ''    '')\<close>
    if l: "link j = Some l \<and> startswith l ''http''" for l
  proof -
    from l have "l \<noteq> []"
      by (auto simp: startswith_def)
    with l c have "link_usable j" and "the (chosen_link j) = l"
      by (simp_all add: link_usable_def)
    then show ?thesis
      by (simp add: render_item_eq item_template_def nl_def)
  qed
  from c n r show ?thesis
    by blast
qed

theorem empty_apply_link_falls_back_witness:
  \<open>apply_link empty_apply_job = Some []
   \<and> chosen_link empty_apply_job = Some ''http://jobs.example.com/4?a=1&b=2''
   \<and> (\<exists>rest. render_item empty_apply_job =
          Some ([CHR 0x0A] @ ''    <li>'' @ [CHR 0x0A]
                @ ''      <strong><a href="'' @ ''http://jobs.example.com/4?a=1&amp;b=2''
                @ ''" target="_blank" rel="noopener noreferrer">''
                @ ''Junior Backend Engineer'' @ ''</a></strong><br/>'' @ rest))\<close>
proof (intro conjI)
  show a: "apply_link empty_apply_job = Some []"
    by (simp add: empty_apply_job_def)
  have l: "link empty_apply_job = Some ''http://jobs.example.com/4?a=1&b=2''"
    by (simp add: empty_apply_job_def)
  have h: "startswith ''http://jobs.example.com/4?a=1&b=2'' ''http''"
    by (simp add: startswith_def)
  have e: "html_escape ''http://jobs.example.com/4?a=1&b=2'' True =
      ''http://jobs.example.com/4?a=1&amp;b=2''"
    by (simp add: html_escape_def replace_def)
  have t: "html_escape (dict_get (title empty_apply_job) ''N/A'') True =
      ''Junior Backend Engineer''"
    by (simp add: html_escape_def replace_def dict_get_def empty_apply_job_def)
  note fallback = empty_apply_link_falls_back [OF a]
  from fallback [THEN conjunct1] l
  show "chosen_link empty_apply_job = Some ''http://jobs.example.com/4?a=1&b=2''"
    by (simp only:)
  note item = fallback [THEN conjunct2, THEN conjunct1, rule_format, OF conjI [OF l h],
      unfolded e t]
  show \<open>\<exists>rest. render_item empty_apply_job =
          Some ([CHR 0x0A] @ ''    <li>'' @ [CHR 0x0A]
                @ ''      <strong><a href="'' @ ''http://jobs.example.com/4?a=1&amp;b=2''
                @ ''" target="_blank" rel="noopener noreferrer">''
                @ ''Junior Backend Engineer'' @ ''</a></strong><br/>'' @ rest)\<close>
    by (rule exI) (rule item)
qed

subsection \<open>The orchestrator\<close>

lemma results_loop_eq: "results_loop results acc = acc @ filter matches_interest results"
  by (induction results arbitrary: acc) simp_all

lemma search_jobs_eq:
  "search_jobs cfg w query loc st =
     (pair_result cfg w (calls st) query loc,
      st\<lparr>calls := calls st + 1, trace := trace st @ [Http_Get (search_params cfg query loc)]\<rparr>)"
proof (cases "http_get w (calls st) (search_params cfg query loc)")
  case (Raises e)
  then show ?thesis
    by (simp add: search_jobs_def pair_result_def Let_def)
next
  case (Response status msg body)
  then show ?thesis
    by (cases body) (simp_all add: search_jobs_def pair_result_def Let_def)
qed

lemma try_pair_eq:
  "try_pair cfg w query loc st =
     st\<lparr>calls := calls st + 1,
        jobs_collected := jobs_collected st @ contribution cfg w (calls st, query, loc),
        trace := trace st @ pair_events cfg w (calls st, query, loc)\<rparr>"
  by (simp add: try_pair_def search_jobs_eq contribution_def pair_events_def results_loop_eq
      split: sum.splits)

lemma run_pairs_append:
  "run_pairs cfg w (ps @ qs) st = run_pairs cfg w qs (run_pairs cfg w ps st)"
  by (induction ps arbitrary: st) simp_all

lemma locations_loop_eq:
  "locations_loop cfg w query locs st = run_pairs cfg w (map (\<lambda>loc. (query, loc)) locs) st"
  by (induction locs arbitrary: st) simp_all

lemma terms_loop_eq:
  "terms_loop cfg w queries st =
     run_pairs cfg w
       (concat (map (\<lambda>query. map (\<lambda>loc. (query, loc)) (LOCATIONS cfg)) queries)) st"
  by (induction queries arbitrary: st) (simp_all add: run_pairs_append locations_loop_eq)

lemma run_pairs_eq:
  "run_pairs cfg w ps st =
     st\<lparr>calls := calls st + length ps,
        jobs_collected :=
          jobs_collected st @ concat (map (contribution cfg w) (enumerate (calls st) ps)),
        trace := trace st @ concat (map (pair_events cfg w) (enumerate (calls st) ps))\<rparr>"
proof (induction ps arbitrary: st)
  case Nil
  show ?case by simp
next
  case (Cons p ps)
  show ?case
    by (cases p) (simp add: Cons.IH try_pair_eq)
qed

lemma run_eq:
  "terms_loop cfg w (JOB_QUERY_TERMS cfg) init_state =
     \<lparr>calls = length (pairs cfg),
      jobs_collected = discovery_order cfg w,
      trace = concat (map (pair_events cfg w) (enumerate 0 (pairs cfg)))\<rparr>"
  by (simp add: terms_loop_eq run_pairs_eq init_state_def pairs_def discovery_order_def)

lemma accepted_jobs_eq: "accepted_jobs cfg w = discovery_order cfg w"
  by (simp add: accepted_jobs_def run_eq)

lemma main_eq:
  assumes "\<not> py_not (SERPAPI_KEY cfg)"
  shows "main cfg w =
     (case smtp_send w (digest_email cfg w) of
        Some e \<Rightarrow>
          (Inl e,
           concat (map (pair_events cfg w) (enumerate 0 (pairs cfg)))
           @ [Smtp_Session (digest_email cfg w)])
      | None \<Rightarrow>
          (Inr (),
           concat (map (pair_events cfg w) (enumerate 0 (pairs cfg)))
           @ [Smtp_Session (digest_email cfg w),
              Stdout (check_mark @ '' Email sent with ''
                      @ str_nat (length (accepted_jobs cfg w)) @ '' job(s).'')]))"
proof -
  have "terms_loop cfg w (JOB_QUERY_TERMS cfg) \<lparr>calls = 0, jobs_collected = [], trace = []\<rparr> =
     \<lparr>calls = length (pairs cfg),
      jobs_collected = discovery_order cfg w,
      trace = concat (map (pair_events cfg w) (enumerate 0 (pairs cfg)))\<rparr>"
    using run_eq [of cfg w] by (simp add: init_state_def)
  with assms show ?thesis
    by (simp add: main_def send_email_def digest_email_def accepted_jobs_eq Let_def
        split: option.splits)
qed

lemma http_requests_append: "http_requests (a @ b) = http_requests a @ http_requests b"
  by (simp add: http_requests_def)

lemma smtp_sessions_append: "smtp_sessions (a @ b) = smtp_sessions a @ smtp_sessions b"
  by (simp add: smtp_sessions_def)

lemma http_requests_pair_events:
  "http_requests (pair_events cfg w (i, query, loc)) = [search_params cfg query loc]"
  by (cases "pair_result cfg w i query loc") (simp_all add: http_requests_def pair_events_def)

lemma smtp_sessions_pair_events: "smtp_sessions (pair_events cfg w p) = []"
proof (cases p)
  case (fields i query loc)
  then show ?thesis
    by (cases "pair_result cfg w i query loc") (simp_all add: smtp_sessions_def pair_events_def)
qed

lemma http_requests_loop:
  "http_requests (concat (map (pair_events cfg w) (enumerate n ps))) =
     map (\<lambda>p. search_params cfg (fst p) (snd p)) ps"
proof (induction ps arbitrary: n)
  case Nil
  show ?case by (simp add: http_requests_def)
next
  case (Cons p ps)
  show ?case
    by (cases p) (simp add: http_requests_append http_requests_pair_events Cons.IH)
qed

lemma smtp_sessions_loop:
  "smtp_sessions (concat (map (pair_events cfg w) ps)) = []"
  by (induction ps) (simp_all add: smtp_sessions_append smtp_sessions_pair_events,
      simp add: smtp_sessions_def)

lemma main_http_requests:
  "\<not> py_not (SERPAPI_KEY cfg) \<Longrightarrow>
     http_requests (snd (main cfg w)) = map (\<lambda>p. search_params cfg (fst p) (snd p)) (pairs cfg)"
  by (simp add: main_eq http_requests_append http_requests_loop split: option.splits)
     (simp add: http_requests_def)

lemma main_smtp_sessions:
  "\<not> py_not (SERPAPI_KEY cfg) \<Longrightarrow> smtp_sessions (snd (main cfg w)) = [digest_email cfg w]"
  by (simp add: main_eq smtp_sessions_append smtp_sessions_loop split: option.splits)
     (simp add: smtp_sessions_def)

text \<open>
  Claim C6. The accepted jobs of a run are in discovery order: term-major over the query
  terms, location-minor over the locations, and in the order of the response within each
  call; every record of every successful call that passes the filter is there once, at
  its place. The digest is rendered from this sequence, its list items in the same order.
\<close>

theorem accepted_in_discovery_order:
  "accepted_jobs cfg w = discovery_order cfg w
   \<and> accepted_jobs cfg w =
       concat (map (\<lambda>p. case pair_result cfg w (fst p) (fst (snd p)) (snd (snd p)) of
                           Inl e \<Rightarrow> []
                         | Inr results \<Rightarrow> filter matches_interest results)
                 (enumerate 0
                    (concat (map (\<lambda>query. map (\<lambda>loc. (query, loc)) (LOCATIONS cfg))
                               (JOB_QUERY_TERMS cfg)))))
   \<and> list_items (accepted_jobs cfg w) =
       map (the \<circ> render_item) (filter link_usable (discovery_order cfg w))
   \<and> (\<not> py_not (SERPAPI_KEY cfg) \<longrightarrow>
        map msg_html (smtp_sessions (snd (main cfg w))) =
          [build_email_html (discovery_order cfg w)])"
proof -
  have "contribution cfg w =
      (\<lambda>p. case pair_result cfg w (fst p) (fst (snd p)) (snd (snd p)) of
             Inl e \<Rightarrow> []
           | Inr results \<Rightarrow> filter matches_interest results)"
    by (rule ext) (simp add: contribution_def split: prod.splits)
  then have "discovery_order cfg w =
       concat (map (\<lambda>p. case pair_result cfg w (fst p) (fst (snd p)) (snd (snd p)) of
                           Inl e \<Rightarrow> []
                         | Inr results \<Rightarrow> filter matches_interest results)
                 (enumerate 0
                    (concat (map (\<lambda>query. map (\<lambda>loc. (query, loc)) (LOCATIONS cfg))
                               (JOB_QUERY_TERMS cfg)))))"
    by (simp add: discovery_order_def pairs_def)
  moreover have "\<not> py_not (SERPAPI_KEY cfg) \<longrightarrow>
        map msg_html (smtp_sessions (snd (main cfg w))) =
          [build_email_html (discovery_order cfg w)]"
    by (simp add: main_smtp_sessions digest_email_def accepted_jobs_eq)
  ultimately show ?thesis
    by (simp add: accepted_jobs_eq list_items_def render_loop_eq)
qed

theorem accepted_in_discovery_order_witness:
  "\<not> py_not (SERPAPI_KEY example_config)
   \<and> accepted_jobs example_config example_world = [fullstack_job, nolink_job]
   \<and> map msg_html (smtp_sessions (snd (main example_config example_world))) =
       [build_email_html [fullstack_job, nolink_job]]"
proof -
  have k: "\<not> py_not (SERPAPI_KEY example_config)"
    by (simp add: py_not_def example_config_def)
  have m: "matches_interest fullstack_job" "\<not> matches_interest senior_job"
    "matches_interest nolink_job"
    by code_simp+
  have "discovery_order example_config example_world = [fullstack_job, nolink_job]"
    using m
    by (simp add: discovery_order_def pairs_def contribution_def pair_result_def
        search_jobs_def search_params_def example_config_def example_world_def
        dict_get_def Let_def)
  with accepted_in_discovery_order [of example_config example_world] k show ?thesis
    by simp
qed

lemma pair_events_in_main:
  assumes key: "\<not> py_not (SERPAPI_KEY cfg)"
    and p: "p \<in> set (enumerate 0 (pairs cfg))"
    and ev: "ev \<in> set (pair_events cfg w p)"
  shows "ev \<in> set (snd (main cfg w))"
proof -
  from p ev have "ev \<in> set (concat (map (pair_events cfg w) (enumerate 0 (pairs cfg))))"
    by auto
  then show ?thesis
    by (cases "smtp_send w (digest_email cfg w)") (simp_all add: main_eq [OF key])
qed

text \<open>
  Claim C2. A record that passes the interest filter but whose chosen link is missing,
  empty or without the prefix \<open>http\<close> gives no list item, and still counts in the
  subject line: the subject text carries the decimal number of accepted jobs, the digest
  holds the list items of the accepted jobs with a usable link, and these are then fewer.
\<close>

theorem subject_counts_unrendered_records:
  assumes "\<not> py_not (SERPAPI_KEY cfg)"
    and "(i, query, loc) \<in> set (enumerate 0 (pairs cfg))"
    and "pair_result cfg w i query loc = Inr results"
    and "j \<in> set results" and "matches_interest j" and "\<not> link_usable j"
  shows "render_item j = None
     \<and> j \<in> set (accepted_jobs cfg w)
     \<and> map msg_subject (smtp_sessions (snd (main cfg w))) =
         [''[Job Alert] '' @ str_nat (length (accepted_jobs cfg w)) @ '' jobs found ''
          @ [CHR 0xE2, CHR 0x80, CHR 0x94] @ '' '' @ utc_today w]
     \<and> map msg_html (smtp_sessions (snd (main cfg w))) =
         [join [CHR 0x0A]
            ([''<h2>'' @ [CHR 0xF0, CHR 0x9F, CHR 0x9A, CHR 0x80] @ '' Job Finder Results</h2>'',
              ''<p>Click the job title to open the application link in your browser.</p>'',
              ''<ul>'']
             @ list_items (accepted_jobs cfg w) @ [''</ul>''])]
     \<and> list_items (accepted_jobs cfg w) =
         map (the \<circ> render_item) (filter link_usable (accepted_jobs cfg w))
     \<and> length (list_items (accepted_jobs cfg w)) < length (accepted_jobs cfg w)"
proof -
  have skipped: "render_item j = None"
    using assms(6) by (simp add: render_item_eq)
  have "j \<in> set (contribution cfg w (i, query, loc))"
    using assms(3-5) by (simp add: contribution_def)
  with assms(2) have collected: "j \<in> set (accepted_jobs cfg w)"
    unfolding accepted_jobs_eq discovery_order_def by auto
  then have nonempty: "accepted_jobs cfg w \<noteq> []"
    by auto
  have "length (filter link_usable (accepted_jobs cfg w)) < length (accepted_jobs cfg w)"
    using collected assms(6) by (auto intro: length_filter_less)
  then have fewer: "length (list_items (accepted_jobs cfg w)) < length (accepted_jobs cfg w)"
    by (simp add: length_list_items)
  have items: "list_items (accepted_jobs cfg w) =
         map (the \<circ> render_item) (filter link_usable (accepted_jobs cfg w))"
    by (simp add: list_items_def render_loop_eq)
  have "smtp_sessions (snd (main cfg w)) = [digest_email cfg w]"
    using assms(1) by (rule main_smtp_sessions)
  then have "map msg_subject (smtp_sessions (snd (main cfg w))) =
         [''[Job Alert] '' @ str_nat (length (accepted_jobs cfg w)) @ '' jobs found ''
          @ [CHR 0xE2, CHR 0x80, CHR 0x94] @ '' '' @ utc_today w]"
    and "map msg_html (smtp_sessions (snd (main cfg w))) =
         [join [CHR 0x0A]
            ([''<h2>'' @ [CHR 0xF0, CHR 0x9F, CHR 0x9A, CHR 0x80] @ '' Job Finder Results</h2>'',
              ''<p>Click the job title to open the application link in your browser.</p>'',
              ''<ul>'']
             @ list_items (accepted_jobs cfg w) @ [''</ul>''])]"
    using build_email_html_items [OF nonempty]
    by (simp_all add: digest_email_def subject_line_def em_dash_def html_header_def
        rocket_def nl_def)
  with skipped collected fewer items show ?thesis
    by simp
qed

theorem subject_counts_unrendered_records_witness:
  "\<not> py_not (SERPAPI_KEY example_config)
   \<and> (1, ''entry level Full Stack Developer'', ''India'')
         \<in> set (enumerate 0 (pairs example_config))
   \<and> pair_result example_config example_world 1 ''entry level Full Stack Developer'' ''India''
       = Inr [fullstack_job, senior_job, nolink_job]
   \<and> matches_interest nolink_job \<and> \<not> link_usable nolink_job
   \<and> render_item nolink_job = None
   \<and> map msg_subject (smtp_sessions (snd (main example_config example_world))) =
       [''[Job Alert] 2 jobs found '' @ [CHR 0xE2, CHR 0x80, CHR 0x94] @ '' 2024-05-01'']
   \<and> length (list_items (accepted_jobs example_config example_world)) = 1
   \<and> length (accepted_jobs example_config example_world) = 2"
proof (intro conjI)
  show k: "\<not> py_not (SERPAPI_KEY example_config)"
    by (simp add: py_not_def example_config_def)
  show p: "(1, ''entry level Full Stack Developer'', ''India'')
         \<in> set (enumerate 0 (pairs example_config))"
    by (simp add: pairs_def example_config_def)
  show r: "pair_result example_config example_world 1 ''entry level Full Stack Developer''
       ''India'' = Inr [fullstack_job, senior_job, nolink_job]"
    by (simp add: pair_result_def search_jobs_def search_params_def example_world_def
        dict_get_def Let_def)
  have m: "matches_interest fullstack_job" "\<not> matches_interest senior_job"
    by code_simp+
  show n: "matches_interest nolink_job"
    by code_simp
  show l: "\<not> link_usable nolink_job"
    by (simp add: link_usable_def chosen_link_def py_or_def nolink_job_def startswith_def)
  have u: "link_usable fullstack_job"
    by (simp add: link_usable_def chosen_link_def py_or_def fullstack_job_def startswith_def)
  have j: "nolink_job \<in> set [fullstack_job, senior_job, nolink_job]"
    by simp
  have "discovery_order example_config example_world = [fullstack_job, nolink_job]"
    using m n
    by (simp add: discovery_order_def pairs_def contribution_def pair_result_def
        search_jobs_def search_params_def example_config_def example_world_def
        dict_get_def Let_def)
  then have acc: "accepted_jobs example_config example_world = [fullstack_job, nolink_job]"
    by (simp add: accepted_jobs_eq)
  show "length (accepted_jobs example_config example_world) = 2"
    by (simp add: acc)
  have c: "str_nat (length (accepted_jobs example_config example_world)) = ''2''"
    by (simp add: acc str_nat.simps)
  have t: "utc_today example_world = ''2024-05-01''"
    by (simp add: example_world_def)
  note run = subject_counts_unrendered_records [OF k p r j n l]
  from run [THEN conjunct1] show "render_item nolink_job = None" .
  from run [THEN conjunct2, THEN conjunct2, THEN conjunct1, unfolded c t]
  show "map msg_subject (smtp_sessions (snd (main example_config example_world))) =
       [''[Job Alert] 2 jobs found '' @ [CHR 0xE2, CHR 0x80, CHR 0x94] @ '' 2024-05-01'']"
    by simp
  from run [THEN conjunct2, THEN conjunct2, THEN conjunct2, THEN conjunct2, THEN conjunct1]
  show "length (list_items (accepted_jobs example_config example_world)) = 1"
    by (simp add: acc u l)
qed

text \<open>
  Claim C7. A search call that raises does not abort the run. With the API key present,
  every (term, location) pair is requested, in order, whatever the outcome of the others;
  a pair whose call raises contributes no record and leaves the line
  \<open>Error fetching <term> in <location>: <error>\<close> on the output; after the pairs the
  digest is handed to the SMTP session once, and the run completes when that session
  succeeds.
\<close>

theorem failed_pair_is_skipped:
  assumes "\<not> py_not (SERPAPI_KEY cfg)"
  shows "http_requests (snd (main cfg w)) =
       map (\<lambda>p. search_params cfg (fst p) (snd p)) (pairs cfg)
     \<and> (\<forall>p \<in> set (enumerate 0 (pairs cfg)). \<forall>e.
          pair_result cfg w (fst p) (fst (snd p)) (snd (snd p)) = Inl e \<longrightarrow>
            contribution cfg w p = []
            \<and> Stdout (''Error fetching '' @ fst (snd p) @ '' in '' @ snd (snd p) @ '': ''
                      @ str_error e) \<in> set (snd (main cfg w)))
     \<and> accepted_jobs cfg w = concat (map (contribution cfg w) (enumerate 0 (pairs cfg)))
     \<and> smtp_sessions (snd (main cfg w)) = [digest_email cfg w]
     \<and> (smtp_send w (digest_email cfg w) = None \<longrightarrow> fst (main cfg w) = Inr ())"
proof -
  have "contribution cfg w p = []
      \<and> Stdout (''Error fetching '' @ fst (snd p) @ '' in '' @ snd (snd p) @ '': ''
                @ str_error e) \<in> set (snd (main cfg w))"
    if p: "p \<in> set (enumerate 0 (pairs cfg))"
      and e: "pair_result cfg w (fst p) (fst (snd p)) (snd (snd p)) = Inl e" for p e
  proof -
    obtain i query loc where "p = (i, query, loc)"
      by (cases p)
    with e have none: "contribution cfg w p = []"
      and logged: "Stdout (''Error fetching '' @ fst (snd p) @ '' in '' @ snd (snd p)
        @ '': '' @ str_error e) \<in> set (pair_events cfg w p)"
      by (simp_all add: contribution_def pair_events_def)
    from pair_events_in_main [OF assms p logged] none show ?thesis
      by simp
  qed
  moreover have "smtp_send w (digest_email cfg w) = None \<longrightarrow> fst (main cfg w) = Inr ()"
    by (simp add: main_eq [OF assms])
  ultimately show ?thesis
    using main_http_requests [OF assms] main_smtp_sessions [OF assms]
    by (simp add: accepted_jobs_eq discovery_order_def)
qed

theorem failed_pair_is_skipped_witness:
  "\<not> py_not (SERPAPI_KEY example_config)
   \<and> pair_result example_config example_world 0 ''entry level Full Stack Developer'' ''Remote''
       = Inl (Exc Timeout ''timed out'')
   \<and> Stdout ''Error fetching entry level Full Stack Developer in Remote: timed out''
       \<in> set (snd (main example_config example_world))
   \<and> length (http_requests (snd (main example_config example_world))) = 2
   \<and> fst (main example_config example_world) = Inr ()"
proof -
  have k: "\<not> py_not (SERPAPI_KEY example_config)"
    by (simp add: py_not_def example_config_def)
  have p: "(0, ''entry level Full Stack Developer'', ''Remote'')
         \<in> set (enumerate 0 (pairs example_config))"
    by (simp add: pairs_def example_config_def)
  have r: "pair_result example_config example_world 0 ''entry level Full Stack Developer''
       ''Remote'' = Inl (Exc Timeout ''timed out'')"
    by (simp add: pair_result_def search_jobs_def search_params_def example_world_def Let_def)
  have s: "smtp_send example_world (digest_email example_config example_world) = None"
    by (simp add: example_world_def)
  have n: "length (pairs example_config) = 2"
    by (simp add: pairs_def example_config_def)
  from failed_pair_is_skipped [OF k, of example_world] p r s n k show ?thesis
    by fastforce
qed

text \<open>
  Claim C8. When the API key is absent (or empty), the run fails with the configuration
  error before any network activity: the trace of the run is empty, so no search request
  and no SMTP session was made.
\<close>

theorem missing_key_aborts_before_network:
  assumes "SERPAPI_KEY cfg = None \<or> SERPAPI_KEY cfg = Some []"
  shows "main cfg w =
       (Inl (Exc RuntimeError (cross_mark @ '' Missing SERPAPI_API_KEY in environment.'')), [])
     \<and> http_requests (snd (main cfg w)) = []
     \<and> smtp_sessions (snd (main cfg w)) = []"
  using assms by (auto simp: main_def py_not_def http_requests_def smtp_sessions_def)

theorem missing_key_aborts_before_network_witness:
  "SERPAPI_KEY (example_config\<lparr>SERPAPI_KEY := None\<rparr>) = None
   \<and> snd (main (example_config\<lparr>SERPAPI_KEY := None\<rparr>) example_world) = []
   \<and> fst (main (example_config\<lparr>SERPAPI_KEY := None\<rparr>) example_world) =
       Inl (Exc RuntimeError (cross_mark @ '' Missing SERPAPI_API_KEY in environment.''))"
  using missing_key_aborts_before_network
    [of "example_config\<lparr>SERPAPI_KEY := None\<rparr>" example_world]
  by simp

subsection \<open>The two limits of the configuration\<close>

lemma search_params_limits:
  "search_params (cfg\<lparr>MAX_RESULTS := a, MIN_DAYS_OLD := b\<rparr>) = search_params cfg"
  by (simp add: search_params_def fun_eq_iff)

lemma search_jobs_limits:
  "search_jobs (cfg\<lparr>MAX_RESULTS := a, MIN_DAYS_OLD := b\<rparr>) = search_jobs cfg"
  by (simp add: search_jobs_def search_params_limits fun_eq_iff)

lemma try_pair_limits:
  "try_pair (cfg\<lparr>MAX_RESULTS := a, MIN_DAYS_OLD := b\<rparr>) = try_pair cfg"
  by (simp add: try_pair_def search_jobs_limits fun_eq_iff)

lemma locations_loop_limits:
  "locations_loop (cfg\<lparr>MAX_RESULTS := a, MIN_DAYS_OLD := b\<rparr>) w query locs st =
     locations_loop cfg w query locs st"
  by (induction locs arbitrary: st) (simp_all add: try_pair_limits)

lemma terms_loop_limits:
  "terms_loop (cfg\<lparr>MAX_RESULTS := a, MIN_DAYS_OLD := b\<rparr>) w queries st =
     terms_loop cfg w queries st"
  by (induction queries arbitrary: st) (simp_all add: locations_loop_limits)

lemma send_email_limits:
  "send_email (cfg\<lparr>MAX_RESULTS := a, MIN_DAYS_OLD := b\<rparr>) = send_email cfg"
  by (simp add: send_email_def fun_eq_iff)

text \<open>
  Claim C9. Two runs that differ only in the configured \<open>MAX_RESULTS\<close> and
  \<open>MIN_DAYS_OLD\<close> have the same outcome and the same trace of events (requests, logged
  lines, the message with its subject and digest), hence the same accepted jobs in the
  same order, the same digest and the same subject count.
\<close>

theorem limits_never_applied:
  "main (cfg\<lparr>MAX_RESULTS := a, MIN_DAYS_OLD := b\<rparr>) w = main cfg w
   \<and> accepted_jobs (cfg\<lparr>MAX_RESULTS := a, MIN_DAYS_OLD := b\<rparr>) w = accepted_jobs cfg w
   \<and> digest_email (cfg\<lparr>MAX_RESULTS := a, MIN_DAYS_OLD := b\<rparr>) w = digest_email cfg w"
proof -
  have acc: "accepted_jobs (cfg\<lparr>MAX_RESULTS := a, MIN_DAYS_OLD := b\<rparr>) w = accepted_jobs cfg w"
    by (simp add: accepted_jobs_def terms_loop_limits)
  then have "digest_email (cfg\<lparr>MAX_RESULTS := a, MIN_DAYS_OLD := b\<rparr>) w = digest_email cfg w"
    by (simp add: digest_email_def)
  moreover have "main (cfg\<lparr>MAX_RESULTS := a, MIN_DAYS_OLD := b\<rparr>) w = main cfg w"
    by (simp add: main_def terms_loop_limits send_email_limits)
  ultimately show ?thesis
    using acc by simp
qed

theorem limits_never_applied_witness:
  "main (example_config\<lparr>MAX_RESULTS := 1, MIN_DAYS_OLD := 0\<rparr>) example_world
     = main example_config example_world
   \<and> MAX_RESULTS example_config = 25 \<and> MIN_DAYS_OLD example_config = 4"
  using limits_never_applied [where cfg = example_config and a = 1 and b = 0
      and w = example_world]
  by (simp add: example_config_def)

end
